theory Spec2Isabelle
  imports Main "HOL-Library.Sublist"
begin

section \<open>Go values used by package file\<close>

text \<open>
  A Go \<open>error\<close> is either the value made by \<open>errors.New(msg)\<close> or the value made by
  \<open>fmt.Errorf(context + "%w", cause)\<close>, which stores the formatted message and the cause.
  Errors of the operating system and of a decoder are values of the same type.
\<close>

datatype error = errorString string | wrapError string error

fun Error :: "error \<Rightarrow> string" where
  "Error (errorString s) = s"
| "Error (wrapError msg cause) = msg"

fun Unwrap :: "error \<Rightarrow> error option" where
  "Unwrap (errorString s) = None"
| "Unwrap (wrapError msg cause) = Some cause"

definition errors_New :: "string \<Rightarrow> error" where
  "errors_New msg = errorString msg"

text \<open>\<open>fmt.Errorf(context + "%w", cause)\<close> for a cause that is not nil.\<close>

definition fmt_Errorf :: "string \<Rightarrow> error \<Rightarrow> error" where
  "fmt_Errorf context cause = wrapError (context @ Error cause) cause"

text \<open>
  A value of type \<open>any\<close> as a decoder produces it. A \<open>map[string]any\<close> is an association
  list; the nil map is \<open>None\<close> of \<open>tree option\<close>. Numbers are carried as their literal
  text: no operation of the package computes with them.
\<close>

datatype any =
    AnyNil
  | AnyBool bool
  | AnyNumber string
  | AnyString string
  | AnySlice "any list"
  | AnyMap "(string \<times> any) list"

type_synonym tree = "(string \<times> any) list"

type_synonym bytes = string

text \<open>
  A decoding of bytes into the \<open>map[string]any\<close> a pointer refers to: from the bytes
  and the map before, the error returned and the map afterwards. The standard library's
  \<open>json.Unmarshal\<close> is of this kind: it has no state.
\<close>

type_synonym decoder = "bytes \<Rightarrow> tree option \<Rightarrow> error option \<times> tree option"

text \<open>
  \<open>func([]byte, any) error\<close> as the caller of the package supplies it, called by \<open>Load\<close>
  with a pointer to a \<open>map[string]any\<close>. A Go function value may be a closure: besides
  its arguments it reads and writes a state \<open>'w\<close> of the program outside the package.
\<close>

type_synonym 'w unmarshal_fn =
  "bytes \<Rightarrow> tree option \<Rightarrow> 'w \<Rightarrow> (error option \<times> tree option) \<times> 'w"

text \<open>A decoder as a function value that leaves the state alone.\<close>

definition stateless :: "decoder \<Rightarrow> 'w unmarshal_fn" where
  "stateless d bs out s = (d bs out, s)"

text \<open>\<open>func(bool, error)\<close>: a callback acting on the same state \<open>'w\<close>.\<close>

type_synonym 'w status_fn = "bool \<Rightarrow> error option \<Rightarrow> 'w \<Rightarrow> 'w"

text \<open>A Go panic, with its message.\<close>

datatype panic = Panic string

definition nil_dereference :: panic where
  "nil_dereference = Panic ''runtime error: invalid memory address or nil pointer dereference''"

section \<open>The operating system\<close>

text \<open>
  What the process sees of its environment: what \<open>os.ReadFile\<close> and \<open>filepath.Abs\<close>
  return for each path at this moment, and the paths \<open>os.ReadFile\<close> has been called
  with so far.
\<close>

record os =
  ReadFile_result :: "string \<Rightarrow> bytes \<times> error option"
  Abs_result :: "string \<Rightarrow> string \<times> error option"
  ReadFile_calls :: "string list"

definition os_ReadFile :: "string \<Rightarrow> os \<Rightarrow> (bytes \<times> error option) \<times> os" where
  "os_ReadFile name w =
     (ReadFile_result w name, w\<lparr>ReadFile_calls := ReadFile_calls w @ [name]\<rparr>)"

definition filepath_Abs :: "string \<Rightarrow> os \<Rightarrow> string \<times> error option" where
  "filepath_Abs p w = Abs_result w p"

section \<open>provider/file/file.go\<close>

record 'w File =
  path :: string
  unmarshal :: "'w unmarshal_fn option"
  onStatus :: "'w status_fn option"

text \<open>
  \<open>type Option func(*options)\<close>, where \<open>options\<close> is the struct \<open>File\<close>: a function
  that updates the struct it is given a pointer to. \<open>None\<close> is the nil function value.
\<close>

type_synonym 'w Option = "('w File \<Rightarrow> 'w File) option"

text \<open>The loop of \<open>New\<close>: calling a nil function panics.\<close>

fun apply_opts :: "'w Option list \<Rightarrow> 'w File \<Rightarrow> panic + 'w File" where
  "apply_opts [] option = Inr option"
| "apply_opts (None # opts) option = Inl nil_dereference"
| "apply_opts (Some opt # opts) option = apply_opts opts (opt option)"

text \<open>\<open>New\<close> returns a pointer to the struct it built: \<open>Some\<close> of its value.\<close>

definition New :: "string \<Rightarrow> 'w Option list \<Rightarrow> panic + 'w File option" where
  "New p opts =
     (case apply_opts opts \<lparr>path = p, unmarshal = None, onStatus = None\<rparr> of
        Inl e \<Rightarrow> Inl e
      | Inr option \<Rightarrow> Inr (Some option))"

definition errNil :: error where
  "errNil = errors_New ''nil File''"

text \<open>
  \<open>Load\<close> has a pointer receiver, \<open>None\<close> for nil. \<open>json_Unmarshal\<close> stands for the
  standard library's \<open>json.Unmarshal\<close>. The call starts in a state of the operating
  system and a state of the program; the result is what the method returns, the struct
  behind the receiver after the call, and the two states after the call.
\<close>

definition Load ::
  "decoder \<Rightarrow> 'w File option \<Rightarrow> os \<Rightarrow> 'w \<Rightarrow>
     (tree option \<times> error option) \<times> 'w File option \<times> os \<times> 'w"
where
  "Load json_Unmarshal f w s =
     (case f of
        None \<Rightarrow> ((None, Some errNil), None, w, s)
      | Some file \<Rightarrow>
          (case os_ReadFile (path file) w of
             ((bs, Some err), w') \<Rightarrow>
               ((None, Some (fmt_Errorf ''read file: '' err)), Some file, w', s)
           | ((bs, None), w') \<Rightarrow>
               (let um = (case unmarshal file of
                            None \<Rightarrow> stateless json_Unmarshal
                          | Some u \<Rightarrow> u)
                in case um bs None s of
                     ((Some err, out), s') \<Rightarrow>
                       ((None, Some (fmt_Errorf ''unmarshal: '' err)), Some file, w', s')
                   | ((None, out), s') \<Rightarrow> ((out, None), Some file, w', s'))))"

text \<open>\<open>String\<close> reads \<open>f.path\<close>: on a nil receiver it panics.\<close>

definition String :: "'w File option \<Rightarrow> os \<Rightarrow> panic + string" where
  "String f w =
     (case f of
        None \<Rightarrow> Inl nil_dereference
      | Some file \<Rightarrow>
          (case filepath_Abs (path file) w of
             (p, Some err) \<Rightarrow> Inr (''file://'' @ (''file:///'' @ path file))
           | (p, None) \<Rightarrow> Inr (''file://'' @ p)))"

section \<open>The Config store\<close>

text \<open>
  The source files hold the tests of the store (\<open>TestConfig_error\<close>,
  \<open>TestConfig_Watch_twice\<close>, \<open>TestConfig_Watch_panic\<close>) and not the store, its
  \<open>Load\<close> and \<open>Watch\<close> or the merge. The definitions of this section follow sections
  3, 4.1 to 4.4 and 7 of the specification, and take from the tests the texts the tests
  compare.
\<close>

text \<open>
  Modelled from the spec: the lower-case form of a letter, for the comparison of keys,
  missing from the source files.
\<close>

definition lower_char :: "char \<Rightarrow> char" where
  "lower_char c =
     (case map_of (zip ''ABCDEFGHIJKLMNOPQRSTUVWXYZ'' ''abcdefghijklmnopqrstuvwxyz'') c of
        None \<Rightarrow> c
      | Some l \<Rightarrow> l)"

text \<open>
  Modelled from the spec: the comparison of keys, missing from the source files.
  "Keys are compared case-insensitively."
\<close>

definition same_key :: "string \<Rightarrow> string \<Rightarrow> bool" where
  "same_key a b = (map lower_char a = map lower_char b)"

text \<open>
  Modelled from the spec: reading one key of a tree, missing from the source files.
\<close>

fun lookup_key :: "string \<Rightarrow> tree \<Rightarrow> any option" where
  "lookup_key k [] = None"
| "lookup_key k ((k', v) # t) = (if same_key k k' then Some v else lookup_key k t)"

text \<open>
  Modelled from the spec: writing one key of a tree, missing from the source files.
  "At any node, a key maps to exactly one value."
\<close>

definition put_key :: "string \<Rightarrow> any \<Rightarrow> tree \<Rightarrow> tree" where
  "put_key k v t = filter (\<lambda>e. \<not> same_key k (fst e)) t @ [(k, v)]"

text \<open>
  Modelled from the spec: the merge engine, missing from the source files. "For every key
  in incoming: if both base[key] and incoming[key] are sub-trees, recursively merge them;
  otherwise incoming[key] replaces base[key] entirely."
\<close>

fun Merge :: "tree \<Rightarrow> tree \<Rightarrow> tree" where
  "Merge base [] = base"
| "Merge base ((k, v) # incoming) =
     Merge (put_key k
              (case (lookup_key k base, v) of
                 (Some (AnyMap b), AnyMap i) \<Rightarrow> AnyMap (Merge b i)
               | _ \<Rightarrow> v)
              base)
           incoming"

text \<open>
  Modelled from the spec: a provider, missing from the source files, by its capabilities:
  what its \<open>Load\<close> returns when it is called, whether it has the \<open>Watch\<close> and the
  \<open>Status\<close> capability, and its name if it has one.
\<close>

record provider =
  Load_cap :: "tree option \<times> error option"
  Watch_cap :: bool
  Status_cap :: bool
  Name_cap :: "string option"

text \<open>Modelled from the spec: the tree a provider's \<open>Load\<close> returned; a nil map has no key.\<close>

definition loaded :: "provider \<Rightarrow> tree" where
  "loaded p = (case fst (Load_cap p) of None \<Rightarrow> [] | Some t \<Rightarrow> t)"

text \<open>Modelled from the spec: the Watch Session State, "enum {Idle, Running, Stopped}".\<close>

datatype session = Idle | Running | Stopped

text \<open>Modelled from the spec: the levels of the log lines the store emits.\<close>

datatype level = INFO | WARN

text \<open>
  Modelled from the spec: the Config store, missing from the source files: the merged
  tree, the registration list, the Watch Session State, the per-provider watch tasks
  started so far and the lines logged so far. \<open>Load_calls\<close> records the providers whose
  \<open>Load\<close> capability has been called, in the order of the calls.
\<close>

record Config =
  merged :: tree
  registrations :: "provider list"
  watch_session :: session
  watch_tasks :: "provider list"
  logged :: "(level \<times> string) list"
  Load_calls :: "provider list"

text \<open>
  Modelled from the spec: \<open>Config.Load\<close>, missing from the source files. "For each
  provider, call its Load capability; on error, wrap as a Load failure and abort the
  whole call with that error (later providers in the same call are not attempted). On
  success, merge the returned tree into the store's tree, then append the provider
  registration to the registration list. Calling Load with zero providers is a no-op
  returning no error." The error is the provider's error wrapped with the context
  "load configuration: ", the message \<open>TestConfig_error\<close> expects.
\<close>

fun Config_Load :: "provider list \<Rightarrow> Config \<Rightarrow> error option \<times> Config" where
  "Config_Load [] c = (None, c)"
| "Config_Load (p # ps) c =
     (case Load_cap p of
        (t, Some e) \<Rightarrow>
          (Some (fmt_Errorf ''load configuration: '' e),
           c\<lparr>Load_calls := Load_calls c @ [p]\<rparr>)
      | (t, None) \<Rightarrow>
          Config_Load ps
            (c\<lparr>merged := Merge (merged c) (loaded p),
               registrations := registrations c @ [p],
               Load_calls := Load_calls c @ [p]\<rparr>))"

text \<open>Modelled from the spec: the cancellation token, with whether its signal has fired.\<close>

datatype cancellation = Cancellation bool

text \<open>
  Modelled from the spec: how a call of \<open>Watch\<close> goes on after its first steps: it fails
  fatally with a message, it returns at once, it blocks until the cancellation signal
  fires, or the specification leaves it open.
\<close>

datatype watch_call = Fatal string | Returned "error option" | Blocks | Unspecified

text \<open>Modelled from the spec: the warning, with the text \<open>TestConfig_Watch_twice\<close> expects.\<close>

definition already_watched :: string where
  "already_watched = ''Config has been watched, call Watch more than once has no effects.''"

text \<open>
  Modelled from the spec: steps 1 to 3 of \<open>Config.Watch\<close>, missing from the source
  files. "1. If cancellation is the nil/absent token, this must fail loudly and
  immediately. 2. Atomically test-and-set the Watch Session State from Idle to Running.
  If it was already Running, log a warning and return success immediately without
  starting new tasks. 3. For every currently registered provider whose watcher
  capability is present, start one independent concurrent task." The fatal message is
  the one \<open>TestConfig_Watch_panic\<close> expects. A call on a Stopped session is "undefined in
  the reference behavior". What the started tasks do and how the blocked call returns
  (steps 4 to 6) is not part of this definition.
\<close>

definition Config_Watch :: "cancellation option \<Rightarrow> Config \<Rightarrow> watch_call \<times> Config" where
  "Config_Watch ctx c =
     (case ctx of
        None \<Rightarrow> (Fatal ''cannot create context from nil parent'', c)
      | Some token \<Rightarrow>
          (case watch_session c of
             Running \<Rightarrow> (Returned None, c\<lparr>logged := logged c @ [(WARN, already_watched)]\<rparr>)
           | Idle \<Rightarrow>
               (Blocks,
                c\<lparr>watch_session := Running,
                  watch_tasks := watch_tasks c @ filter Watch_cap (registrations c)\<rparr>)
           | Stopped \<Rightarrow> (Unspecified, c)))"

section \<open>Example values\<close>

text \<open>
  A decoder that knows two documents: the empty object, which makes the target an empty
  map, and \<open>null\<close>, which leaves the target as it is. Anything else is a syntax error.
\<close>

definition example_decoder :: decoder where
  "example_decoder bs out =
     (if bs = ''{}'' then (None, Some [])
      else if bs = ''null'' then (None, out)
      else (Some (errorString ''invalid character''), out))"

text \<open>
  An operating system with two files, \<open>config.json\<close> holding the empty object and
  \<open>broken.json\<close> holding text that is not a document, and the working directory \<open>/srv\<close>.
\<close>

definition example_os :: os where
  "example_os =
     \<lparr>ReadFile_result = (\<lambda>name.
          if name = ''config.json'' then (''{}'', None)
          else if name = ''broken.json'' then (''{'', None)
          else ([], Some (errorString (''open '' @ name @ '': no such file or directory'')))),
      Abs_result = (\<lambda>p. (''/srv/'' @ p, None)),
      ReadFile_calls = []\<rparr>"

text \<open>
  The same files in a process whose working directory cannot be determined, so that
  \<open>filepath.Abs\<close> fails on a relative path.
\<close>

definition detached_os :: os where
  "detached_os =
     example_os\<lparr>Abs_result := (\<lambda>p. ([], Some (errorString ''getwd: no such file or directory'')))\<rparr>"

definition config_file :: "unit File" where
  "config_file = \<lparr>path = ''config.json'', unmarshal = None, onStatus = None\<rparr>"

definition broken_file :: "unit File" where
  "broken_file = \<lparr>path = ''broken.json'', unmarshal = None, onStatus = None\<rparr>"

definition missing_file :: "unit File" where
  "missing_file = \<lparr>path = ''missing.json'', unmarshal = None, onStatus = None\<rparr>"




text \<open>Two options: one sets the unmarshal function, one sets the status callback.\<close>

definition set_unmarshal :: "unit unmarshal_fn \<Rightarrow> unit File \<Rightarrow> unit File" where
  "set_unmarshal u option = option\<lparr>unmarshal := Some u\<rparr>"

definition set_onStatus :: "unit status_fn \<Rightarrow> unit File \<Rightarrow> unit File" where
  "set_onStatus s option = option\<lparr>onStatus := Some s\<rparr>"

text \<open>The providers of the tests: \<open>stringWatcher{key: "Config"}\<close> and \<open>errorLoader{}\<close>.\<close>

definition stringWatcher :: provider where
  "stringWatcher =
     \<lparr>Load_cap = (Some [(''Config'', AnyString [])], None),
      Watch_cap = True, Status_cap = False, Name_cap = Some ''stringWatcher''\<rparr>"


text \<open>The zero value of the store, \<open>var config konf.Config\<close>.\<close>

definition zero_Config :: Config where
  "zero_Config =
     \<lparr>merged = [], registrations = [], watch_session = Idle, watch_tasks = [],
      logged = [], Load_calls = []\<rparr>"

section \<open>Properties of package file\<close>

subsection \<open>Auxiliary facts\<close>

lemma Unwrap_fmt_Errorf: "Unwrap (fmt_Errorf context c) = Some c"
  by (simp add: fmt_Errorf_def)


text \<open>What \<open>Load\<close> returns on a receiver that is not nil, by the outcome of its two steps.\<close>

lemma fst_Load_Some:
  "ReadFile_result w (path f) = (bs, rerr) \<Longrightarrow>
   (case unmarshal f of None \<Rightarrow> stateless json | Some u \<Rightarrow> u) bs None s = ((derr, out), s') \<Longrightarrow>
   fst (Load json (Some f) w s) =
     (case rerr of
        Some c \<Rightarrow> (None, Some (fmt_Errorf ''read file: '' c))
      | None \<Rightarrow>
          (case derr of
             Some c \<Rightarrow> (None, Some (fmt_Errorf ''unmarshal: '' c))
           | None \<Rightarrow> (out, None)))"
  by (simp add: Load_def os_ReadFile_def split: option.splits)


text \<open>On a receiver that is not nil, \<open>Load\<close> calls \<open>os.ReadFile\<close> once, with the path.\<close>

lemma ReadFile_calls_Load:
  "ReadFile_calls (fst (snd (snd (Load json (Some f) w s)))) = ReadFile_calls w @ [path f]"
  by (simp add: Load_def os_ReadFile_def split: option.splits prod.splits)


lemma apply_opts_Some:
  "apply_opts (map Some gs) option = Inr (foldl (\<lambda>option g. g option) option gs)"
  by (induction gs arbitrary: option) simp_all

lemma foldl_keeps:
  "\<forall>g\<in>set gs. \<forall>option. field (g option) = field option \<Longrightarrow>
   field (foldl (\<lambda>option g. g option) option gs) = field option"
  by (induction gs arbitrary: option) simp_all

text \<open>One more option at the end of the list is applied last.\<close>

lemma New_snoc:
  "New p (map Some gs) = Inr (Some f) \<Longrightarrow> New p (map Some (gs @ [g])) = Inr (Some (g f))"
  using apply_opts_Some [of "gs @ [g]" "\<lparr>path = p, unmarshal = None, onStatus = None\<rparr>"]
  by (auto simp: New_def apply_opts_Some simp del: map_append)

subsection \<open>String\<close>

text \<open>When \<open>filepath.Abs\<close> succeeds, \<open>String\<close> is "file://" followed by the absolute path.\<close>

lemma String_Abs_ok:
  "Abs_result w (path f) = (a, None) \<Longrightarrow> String (Some f) w = Inr (''file://'' @ a)"
  by (simp add: String_def filepath_Abs_def)

text \<open>
  When \<open>filepath.Abs\<close> fails, \<open>String\<close> puts "file://" in front of a string that
  already starts with "file:///".
\<close>

lemma String_Abs_fails:
  "Abs_result w (path f) = (a, Some err) \<Longrightarrow>
   String (Some f) w = Inr (''file://file:///'' @ path f)"
  by (simp add: String_def filepath_Abs_def)

text \<open>
  C1. \<open>String\<close> should return "file://" followed by the absolute form of the path, and
  fall back to the literal given path when the absolute path cannot be computed. In a
  process whose working directory cannot be determined, the file made with the path
  \<open>config.json\<close> gets the name \<open>file://file:///config.json\<close>: the scheme twice, and not
  the given path.
\<close>

theorem String_fallback_doubles_scheme:
  "String (Some config_file) detached_os = Inr ''file://file:///config.json''"
  by (simp add: String_def filepath_Abs_def detached_os_def config_file_def)

text \<open>
  C10. For a receiver that is not nil, \<open>String\<close> returns (it does not panic), and what
  it returns begins with "file://", whether \<open>filepath.Abs\<close> succeeds or fails.
\<close>

theorem String_total_prefix:
  "\<exists>s. String (Some f) w = Inr s \<and> prefix ''file://'' s"
  by (auto simp: String_def prefix_def split: prod.splits option.splits)

subsection \<open>Load\<close>

text \<open>
  C2. For a receiver that is not nil: if \<open>os.ReadFile\<close> fails with \<open>c\<close>, or it succeeds
  and the decoding of the bytes it read fails with \<open>c\<close>, then \<open>Load\<close> returns the nil
  tree and an error whose wrapped cause is \<open>c\<close>; and \<open>Load\<close> returns no error exactly
  when the read and the decoding both succeed.
\<close>

theorem Load_failure_carries_cause:
  assumes rd: "ReadFile_result w (path f) = (bs, rerr)"
      and dec: "(case unmarshal f of None \<Rightarrow> stateless json | Some u \<Rightarrow> u) bs None s =
                  ((derr, out), s')"
      and res: "fst (Load json (Some f) w s) = (t, e)"
  shows "(\<forall>c. rerr = Some c \<or> (rerr = None \<and> derr = Some c) \<longrightarrow>
            t = None \<and> (\<exists>err. e = Some err \<and> Unwrap err = Some c)) \<and>
         (e = None \<longleftrightarrow> rerr = None \<and> derr = None)"
  using res unfolding fst_Load_Some [OF rd dec]
  by (auto simp: Unwrap_fmt_Errorf split: option.splits)

text \<open>
  C2 at \<open>broken.json\<close>: the read succeeds, the decoding fails, and \<open>Load\<close> returns the
  nil tree and the decoder's error wrapped.
\<close>

theorem Load_failure_carries_cause_witness:
  "ReadFile_result example_os (path broken_file) = (''{'', None) \<and>
   example_decoder ''{'' None = (Some (errorString ''invalid character''), None) \<and>
   fst (Load example_decoder (Some broken_file) example_os ()) =
     (None, Some (wrapError ''unmarshal: invalid character'' (errorString ''invalid character''))) \<and>
   Unwrap (wrapError ''unmarshal: invalid character'' (errorString ''invalid character'')) =
     Some (errorString ''invalid character'')"
proof -
  have rd: "ReadFile_result example_os (path broken_file) = (''{'', None)"
    by (simp add: example_os_def broken_file_def)
  have dec: "(case unmarshal broken_file of None \<Rightarrow> stateless example_decoder | Some u \<Rightarrow> u)
               ''{'' None () = ((Some (errorString ''invalid character''), None), ())"
    by (simp add: broken_file_def example_decoder_def stateless_def)
  have res: "fst (Load example_decoder (Some broken_file) example_os ()) =
               (None, Some (wrapError ''unmarshal: invalid character'' (errorString ''invalid character'')))"
    by (simp add: Load_def os_ReadFile_def example_os_def broken_file_def example_decoder_def
        stateless_def fmt_Errorf_def)
  from Load_failure_carries_cause [OF rd dec res] rd res show ?thesis
    by (simp add: example_decoder_def)
qed

text \<open>
  C3. For a receiver that is not nil and whose unmarshal function is nil, \<open>Load\<close> gives
  all the bytes it read to \<open>json.Unmarshal\<close>, with a nil map as the target: when that
  succeeds, the map it decoded is the tree \<open>Load\<close> returns, with no error; when it fails,
  \<open>Load\<close> returns its error wrapped.
\<close>

theorem Load_default_decode:
  assumes "unmarshal f = None"
      and "ReadFile_result w (path f) = (bs, None)"
  shows "(\<forall>out. json bs None = (None, out) \<longrightarrow> fst (Load json (Some f) w s) = (out, None)) \<and>
         (\<forall>err out. json bs None = (Some err, out) \<longrightarrow>
            fst (Load json (Some f) w s) = (None, Some (fmt_Errorf ''unmarshal: '' err)))"
  using assms by (simp add: Load_def os_ReadFile_def stateless_def)

text \<open>C3 at \<open>config.json\<close>, which holds the empty object: \<open>Load\<close> returns the empty map.\<close>

theorem Load_default_decode_witness:
  "unmarshal config_file = None \<and>
   ReadFile_result example_os (path config_file) = (''{}'', None) \<and>
   example_decoder ''{}'' None = (None, Some []) \<and>
   fst (Load example_decoder (Some config_file) example_os ()) = (Some [], None)"
proof -
  have u: "unmarshal config_file = None"
    by (simp add: config_file_def)
  have rd: "ReadFile_result example_os (path config_file) = (''{}'', None)"
    by (simp add: example_os_def config_file_def)
  have dec: "example_decoder ''{}'' None = (None, Some [])"
    by (simp add: example_decoder_def)
  from Load_default_decode [OF u rd, of example_decoder "()"] u rd dec show ?thesis
    by simp
qed




text \<open>
  C8. \<open>Load\<close> on a nil receiver returns a nil tree and the sentinel error whose message
  is "nil File"; it does not panic, and it reads no file: the operating system, with the
  record of the calls of \<open>os.ReadFile\<close>, and the state of the program are as before.
\<close>

theorem Load_nil_receiver:
  "Load json None w s = ((None, Some errNil), None, w, s) \<and> Error errNil = ''nil File''"
  by (simp add: Load_def errNil_def errors_New_def)

subsection \<open>New\<close>

text \<open>
  C9, as stated, at the option list that holds one nil option: \<open>New\<close> calls the nil
  function and panics; it returns no File.
\<close>

theorem New_nil_option_panics:
  "New ''config.json'' [None] = (Inl nil_dereference :: panic + unit File option)"
  by (simp add: New_def)

text \<open>
  C9, amended. For every path \<open>p\<close> and every list of options none of which is nil,
  \<open>New\<close> returns a File that is not nil: the struct with path \<open>p\<close> and with nil
  unmarshal and onStatus, updated by the options in the order of the arguments. A field
  that no option of the list changes keeps that first value: the path is \<open>p\<close>, unmarshal
  is nil, onStatus is nil.
\<close>

theorem New_applies_options_in_order:
  "\<exists>f. New p (map Some gs) = Inr (Some f) \<and>
       f = foldl (\<lambda>option g. g option) \<lparr>path = p, unmarshal = None, onStatus = None\<rparr> gs \<and>
       ((\<forall>g\<in>set gs. \<forall>option. path (g option) = path option) \<longrightarrow> path f = p) \<and>
       ((\<forall>g\<in>set gs. \<forall>option. unmarshal (g option) = unmarshal option) \<longrightarrow> unmarshal f = None) \<and>
       ((\<forall>g\<in>set gs. \<forall>option. onStatus (g option) = onStatus option) \<longrightarrow> onStatus f = None)"
  using foldl_keeps [where field = path and gs = gs]
    foldl_keeps [where field = unmarshal and gs = gs]
    foldl_keeps [where field = onStatus and gs = gs]
  by (simp add: New_def apply_opts_Some)

text \<open>
  C9, amended, at an option that sets the unmarshal function and at one that sets the
  status callback: the path is the one given, and the field the option does not set is
  nil.
\<close>

theorem New_applies_options_in_order_witness:
  "New ''config.json'' [Some (set_unmarshal (stateless example_decoder))] =
     Inr (Some \<lparr>path = ''config.json'', unmarshal = Some (stateless example_decoder),
                onStatus = None\<rparr>) \<and>
   New ''config.json'' [Some (set_onStatus (\<lambda>ok err u. u))] =
     Inr (Some \<lparr>path = ''config.json'', unmarshal = None, onStatus = Some (\<lambda>ok err u. u)\<rparr>)"
  using New_applies_options_in_order
      [of "''config.json''" "[set_unmarshal (stateless example_decoder)]"]
    New_applies_options_in_order [of "''config.json''" "[set_onStatus (\<lambda>ok err u. u)]"]
  by (simp add: set_unmarshal_def set_onStatus_def)

section \<open>Properties of the Config store\<close>




text \<open>
  C6. On a store whose Watch Session State is Running, a call of \<open>Watch\<close> with a
  cancellation token returns success at once; it starts no watch task, the session
  stays Running, and the log grows by one line, the warning whose text holds
  "has no effects".
\<close>

theorem Config_Watch_twice:
  assumes "watch_session c = Running"
  shows "Config_Watch (Some token) c =
           (Returned None, c\<lparr>logged := logged c @ [(WARN, already_watched)]\<rparr>) \<and>
         watch_tasks (snd (Config_Watch (Some token) c)) = watch_tasks c \<and>
         watch_session (snd (Config_Watch (Some token) c)) = Running \<and>
         sublist ''has no effects'' already_watched"
proof -
  have "already_watched =
          ''Config has been watched, call Watch more than once '' @ ''has no effects'' @ ''.''"
    by (simp add: already_watched_def)
  then have "sublist ''has no effects'' already_watched"
    unfolding sublist_def by blast
  with assms show ?thesis
    by (simp add: Config_Watch_def)
qed

text \<open>
  C6 at the store of \<open>TestConfig_Watch_twice\<close>: \<open>stringWatcher\<close> loaded, the first
  \<open>Watch\<close> blocked with one task started; the second \<open>Watch\<close> returns at once and the
  log holds the one warning.
\<close>

theorem Config_Watch_twice_witness:
  "Config_Watch (Some (Cancellation False)) (snd (Config_Load [stringWatcher] zero_Config)) =
     (Blocks,
      zero_Config\<lparr>merged := [(''Config'', AnyString [])],
                  registrations := [stringWatcher],
                  watch_session := Running,
                  watch_tasks := [stringWatcher],
                  Load_calls := [stringWatcher]\<rparr>) \<and>
   Config_Watch (Some (Cancellation False))
     (zero_Config\<lparr>merged := [(''Config'', AnyString [])],
                  registrations := [stringWatcher],
                  watch_session := Running,
                  watch_tasks := [stringWatcher],
                  Load_calls := [stringWatcher]\<rparr>) =
     (Returned None,
      zero_Config\<lparr>merged := [(''Config'', AnyString [])],
                  registrations := [stringWatcher],
                  watch_session := Running,
                  watch_tasks := [stringWatcher],
                  logged := [(WARN, already_watched)],
                  Load_calls := [stringWatcher]\<rparr>)"
proof -
  let ?running = "zero_Config\<lparr>merged := [(''Config'', AnyString [])],
                  registrations := [stringWatcher],
                  watch_session := Running,
                  watch_tasks := [stringWatcher],
                  Load_calls := [stringWatcher]\<rparr>"
  have first: "Config_Watch (Some (Cancellation False))
                 (snd (Config_Load [stringWatcher] zero_Config)) = (Blocks, ?running)"
    by (simp add: Config_Watch_def stringWatcher_def zero_Config_def loaded_def put_key_def)
  have running: "watch_session ?running = Running"
    by simp
  from Config_Watch_twice [OF running, of "Cancellation False"] first show ?thesis
    by (simp add: zero_Config_def)
qed

text \<open>
  C7. On every store, a call of \<open>Watch\<close> without a cancellation token fails fatally, with
  the message "cannot create context from nil parent"; it returns no error value, and
  the store is as before.
\<close>

theorem Config_Watch_nil_token:
  "Config_Watch None c = (Fatal ''cannot create context from nil parent'', c)"
  by (simp add: Config_Watch_def)

end
